theory Spec2Isabelle
  imports Complex_Main
begin

section \<open>Values of the host language\<close>

text \<open>
  The adapter of \<^verbatim>\<open>localLLMContentGenerator.ts\<close> works on loosely typed objects. Two value
  universes are used. Strings are lists of 8-bit characters, read as ASCII; numbers are
  rationals (the values \<^verbatim>\<open>NaN\<close> and the infinities, which JSON cannot carry, are left out).

  \<open>jsval\<close> is a generic value: what \<^verbatim>\<open>JSON.parse\<close> returns and what \<^verbatim>\<open>JSON.stringify\<close> reads.
  An object is the list of its own properties in enumeration order.
\<close>

datatype jsval =
    JUndefined
  | JNull
  | JBool bool
  | JNum rat
  | JStr string
  | JArr "jsval list"
  | JObj "(string \<times> jsval) list"

text \<open>
  \<open>pval\<close> is a value as the request translator reads it: a turn, a part, a list of them, a
  bare string, or anything else. Of an object only the three properties the translator ever
  reads are kept, at their declared types: \<^verbatim>\<open>role?: string\<close>, \<^verbatim>\<open>text?: string\<close> and \<^verbatim>\<open>parts\<close>
  (any value); \<open>None\<close> is an absent property. \<open>PObj role text parts\<close>.
\<close>

datatype pval =
    PUndefined
  | PNull
  | PBool bool
  | PNum rat
  | PStr string
  | PArr "pval list"
  | PObj "string option" "string option" "pval option"

text \<open>Truthiness (\<^verbatim>\<open>if (x)\<close>, \<^verbatim>\<open>x || d\<close>): the falsy values are undefined, null, false, 0 and the
  empty string.\<close>

fun truthy :: "pval \<Rightarrow> bool" where
  "truthy PUndefined = False"
| "truthy PNull = False"
| "truthy (PBool b) = b"
| "truthy (PNum n) = (n \<noteq> 0)"
| "truthy (PStr s) = (s \<noteq> [])"
| "truthy (PArr xs) = True"
| "truthy (PObj r t ps) = True"

fun truthy_jsval :: "jsval \<Rightarrow> bool" where
  "truthy_jsval JUndefined = False"
| "truthy_jsval JNull = False"
| "truthy_jsval (JBool b) = b"
| "truthy_jsval (JNum n) = (n \<noteq> 0)"
| "truthy_jsval (JStr s) = (s \<noteq> [])"
| "truthy_jsval (JArr xs) = True"
| "truthy_jsval (JObj kvs) = True"

text \<open>\<^verbatim>\<open>x || d\<close> on an optional string and on an optional number.\<close>

definition string_or :: "string option \<Rightarrow> string \<Rightarrow> string" where
  "string_or x d = (case x of Some s \<Rightarrow> if s \<noteq> [] then s else d | None \<Rightarrow> d)"

definition number_or :: "rat option \<Rightarrow> rat \<Rightarrow> rat" where
  "number_or x d = (case x of Some n \<Rightarrow> if n \<noteq> 0 then n else d | None \<Rightarrow> d)"

text \<open>\<^verbatim>\<open>x ?? d\<close>, the operator the specification writes: only an absent value is replaced.\<close>

definition nullish_or :: "'a option \<Rightarrow> 'a \<Rightarrow> 'a" where
  "nullish_or x d = (case x of Some v \<Rightarrow> v | None \<Rightarrow> d)"

text \<open>\<^verbatim>\<open>String.prototype.toUpperCase\<close> on ASCII text.\<close>

definition toUpperCase :: "string \<Rightarrow> string" where
  "toUpperCase s =
     map (\<lambda>c. if 97 \<le> (of_char c :: int) \<and> (of_char c :: int) \<le> 122
              then char_of ((of_char c :: int) - 32) else c) s"

text \<open>\<^verbatim>\<open>Math.ceil\<close>.\<close>

definition Math_ceil :: "rat \<Rightarrow> int" where
  "Math_ceil x = \<lceil>x\<rceil>"

section \<open>The runtime's JSON serializer\<close>

definition dquote :: char where
  "dquote = CHR 0x22"

definition backslash :: char where
  "backslash = CHR 0x5C"

text \<open>\<^verbatim>\<open>Array.prototype.join\<close> on strings.\<close>

fun join :: "string \<Rightarrow> string list \<Rightarrow> string" where
  "join sep [] = []"
| "join sep [x] = x"
| "join sep (x # y # ys) = x @ sep @ join sep (y # ys)"

definition hex_digit :: "int \<Rightarrow> char" where
  "hex_digit d = ''0123456789abcdef'' ! nat (d mod 16)"

definition escape_char :: "char \<Rightarrow> string" where
  "escape_char c =
     (if c = dquote then [backslash, dquote]
      else if c = backslash then [backslash, backslash]
      else if c = CHR 0x08 then [backslash, CHR ''b'']
      else if c = CHR 0x0C then [backslash, CHR ''f'']
      else if c = CHR 0x0A then [backslash, CHR ''n'']
      else if c = CHR 0x0D then [backslash, CHR ''r'']
      else if c = CHR 0x09 then [backslash, CHR ''t'']
      else if (of_char c :: int) < 32
        then [backslash, CHR ''u'', CHR ''0'', CHR ''0'',
              hex_digit (of_char c div 16), hex_digit (of_char c mod 16)]
      else [c])"

definition quote :: "string \<Rightarrow> string" where
  "quote s = dquote # concat (map escape_char s) @ [dquote]"

text \<open>
  The serialization of a value inside a document. The printing of a number is the runtime's
  \<^verbatim>\<open>Number::toString\<close>, taken as the parameter \<open>N\<close>. An undefined array element prints as
  \<^verbatim>\<open>null\<close>; an undefined property is left out.
\<close>

fun serialize :: "(rat \<Rightarrow> string) \<Rightarrow> jsval \<Rightarrow> string" where
  "serialize N JUndefined = ''null''"
| "serialize N JNull = ''null''"
| "serialize N (JBool b) = (if b then ''true'' else ''false'')"
| "serialize N (JNum n) = N n"
| "serialize N (JStr s) = quote s"
| "serialize N (JArr xs) = ''['' @ join '','' (map (serialize N) xs) @ '']''"
| "serialize N (JObj kvs) =
     ''{'' @ join '',''
        (map (\<lambda>kv. quote (fst kv) @ '':'' @ serialize N (snd kv))
           (filter (\<lambda>kv. snd kv \<noteq> JUndefined) kvs)) @ ''}''"

text \<open>\<^verbatim>\<open>JSON.stringify(v)\<close>: \<open>None\<close> is the result \<^verbatim>\<open>undefined\<close>, which only an undefined
  argument gives.\<close>

definition JSON_stringify :: "(rat \<Rightarrow> string) \<Rightarrow> jsval \<Rightarrow> string option" where
  "JSON_stringify N v = (if v = JUndefined then None else Some (serialize N v))"

section \<open>The runtime's JSON parser\<close>

text \<open>
  \<^verbatim>\<open>JSON.parse\<close> is a parameter of the response translator below. \<open>JSON_parse\<close> is a
  recursive-descent parser of the JSON grammar (ECMA-404), used to evaluate the translator on
  concrete texts; \<open>None\<close> is the \<^verbatim>\<open>SyntaxError\<close>. A number is its exact decimal value; an escape
  \<^verbatim>\<open>\uXXXX\<close> is read when its code unit fits the 8-bit characters of this model.
\<close>

definition is_ws :: "char \<Rightarrow> bool" where
  "is_ws c = (c = CHR '' '' \<or> c = CHR 0x09 \<or> c = CHR 0x0A \<or> c = CHR 0x0D)"

definition skip_ws :: "string \<Rightarrow> string" where
  "skip_ws cs = dropWhile is_ws cs"

definition is_digit :: "char \<Rightarrow> bool" where
  "is_digit c = (48 \<le> (of_char c :: int) \<and> (of_char c :: int) \<le> 57)"

definition digits_value :: "string \<Rightarrow> int" where
  "digits_value ds = foldl (\<lambda>a c. 10 * a + (of_char c - 48)) 0 ds"

definition hex_value :: "char \<Rightarrow> int option" where
  "hex_value c =
     (let n = (of_char c :: int) in
      if 48 \<le> n \<and> n \<le> 57 then Some (n - 48)
      else if 65 \<le> n \<and> n \<le> 70 then Some (n - 55)
      else if 97 \<le> n \<and> n \<le> 102 then Some (n - 87)
      else None)"

definition unicode_escape :: "char \<Rightarrow> char \<Rightarrow> char \<Rightarrow> char \<Rightarrow> char option" where
  "unicode_escape a b c d =
     (case (hex_value a, hex_value b, hex_value c, hex_value d) of
        (Some p, Some q, Some r, Some s) \<Rightarrow>
          (if p = 0 \<and> q = 0 then Some (char_of (16 * r + s)) else None)
      | _ \<Rightarrow> None)"

definition simple_escape :: "char \<Rightarrow> char option" where
  "simple_escape e =
     (if e = dquote then Some dquote
      else if e = backslash then Some backslash
      else if e = CHR ''/'' then Some (CHR ''/'')
      else if e = CHR ''b'' then Some (CHR 0x08)
      else if e = CHR ''f'' then Some (CHR 0x0C)
      else if e = CHR ''n'' then Some (CHR 0x0A)
      else if e = CHR ''r'' then Some (CHR 0x0D)
      else if e = CHR ''t'' then Some (CHR 0x09)
      else None)"

text \<open>The characters of a string after its opening quote, up to the closing one.\<close>

fun parse_chars :: "string \<Rightarrow> string \<Rightarrow> (string \<times> string) option" where
  "parse_chars [] acc = None"
| "parse_chars (c # cs) acc =
     (if c = dquote then Some (acc, cs)
      else if c = backslash then
        (case cs of
           [] \<Rightarrow> None
         | e # r \<Rightarrow>
             if e = CHR ''u'' then
               (case r of
                  h1 # h2 # h3 # h4 # r' \<Rightarrow>
                    (case unicode_escape h1 h2 h3 h4 of
                       Some ch \<Rightarrow> parse_chars r' (acc @ [ch])
                     | None \<Rightarrow> None)
                | _ \<Rightarrow> None)
             else
               (case simple_escape e of
                  Some ch \<Rightarrow> parse_chars r (acc @ [ch])
                | None \<Rightarrow> None))
      else if (of_char c :: int) < 32 then None
      else parse_chars cs (acc @ [c]))"

definition parse_fraction :: "string \<Rightarrow> (string \<times> string) option" where
  "parse_fraction cs =
     (case cs of
        [] \<Rightarrow> Some ([], [])
      | c # r \<Rightarrow>
          if c = CHR ''.'' then
            (if takeWhile is_digit r = [] then None
             else Some (takeWhile is_digit r, dropWhile is_digit r))
          else Some ([], cs))"

definition parse_exponent :: "string \<Rightarrow> (int \<times> string) option" where
  "parse_exponent cs =
     (case cs of
        [] \<Rightarrow> Some (0, [])
      | c # r \<Rightarrow>
          if c = CHR ''e'' \<or> c = CHR ''E'' then
            (let neg = (case r of s # _ \<Rightarrow> s = CHR ''-'' | [] \<Rightarrow> False);
                 signed = (case r of s # _ \<Rightarrow> s = CHR ''-'' \<or> s = CHR ''+'' | [] \<Rightarrow> False);
                 r' = (if signed then tl r else r);
                 ds = takeWhile is_digit r'
             in if ds = [] then None
                else Some ((if neg then - digits_value ds else digits_value ds),
                           dropWhile is_digit r'))
          else Some (0, cs))"

definition parse_number :: "string \<Rightarrow> (rat \<times> string) option" where
  "parse_number cs =
     (let neg = (case cs of c # _ \<Rightarrow> c = CHR ''-'' | [] \<Rightarrow> False);
          cs1 = (if neg then tl cs else cs);
          ds = takeWhile is_digit cs1
      in if ds = [] \<or> (take 1 ds = ''0'' \<and> length ds > 1) then None
         else
           (case parse_fraction (dropWhile is_digit cs1) of
              None \<Rightarrow> None
            | Some (fs, cs2) \<Rightarrow>
                (case parse_exponent cs2 of
                   None \<Rightarrow> None
                 | Some (e, cs3) \<Rightarrow>
                     (let m = of_int (digits_value ds) + of_int (digits_value fs) / 10 ^ length fs;
                          v = (if 0 \<le> e then m * 10 ^ nat e else m / 10 ^ nat (- e))
                      in Some ((if neg then - v else v), cs3)))))"

text \<open>
  Defining a property while an object is built: a key already there keeps its place and takes
  the new value; a new array-index key goes among the index keys in ascending order, which
  come first; any other new key goes last.
\<close>

definition array_index :: "string \<Rightarrow> int option" where
  "array_index k =
     (if k \<noteq> [] \<and> list_all is_digit k \<and> (length k = 1 \<or> take 1 k \<noteq> ''0'')
         \<and> digits_value k < 4294967295
      then Some (digits_value k) else None)"

fun insert_index :: "int \<Rightarrow> string \<Rightarrow> jsval \<Rightarrow> (string \<times> jsval) list \<Rightarrow> (string \<times> jsval) list" where
  "insert_index i k v [] = [(k, v)]"
| "insert_index i k v (p # ps) =
     (case array_index (fst p) of
        Some j \<Rightarrow> if j < i then p # insert_index i k v ps else (k, v) # p # ps
      | None \<Rightarrow> (k, v) # p # ps)"

fun replace_property :: "string \<Rightarrow> jsval \<Rightarrow> (string \<times> jsval) list \<Rightarrow> (string \<times> jsval) list" where
  "replace_property k v [] = []"
| "replace_property k v (p # ps) =
     (if fst p = k then (k, v) # ps else p # replace_property k v ps)"

definition define_property :: "(string \<times> jsval) list \<Rightarrow> string \<Rightarrow> jsval \<Rightarrow> (string \<times> jsval) list" where
  "define_property kvs k v =
     (if k \<in> set (map fst kvs) then replace_property k v kvs
      else (case array_index k of
              Some i \<Rightarrow> insert_index i k v kvs
            | None \<Rightarrow> kvs @ [(k, v)]))"

text \<open>
  The elements of an array after its bracket and the members of an object after its brace,
  given the parser \<open>pv\<close> of one value. The first argument bounds the number of rounds; the
  length of the text left is enough, each round reading at least one character.
\<close>

primrec parse_elements ::
  "nat \<Rightarrow> (string \<Rightarrow> (jsval \<times> string) option) \<Rightarrow> string \<Rightarrow> jsval list \<Rightarrow> (jsval \<times> string) option" where
  "parse_elements 0 pv cs acc = None"
| "parse_elements (Suc k) pv cs acc =
     (case pv cs of
        None \<Rightarrow> None
      | Some (v, r) \<Rightarrow>
          (case skip_ws r of
             [] \<Rightarrow> None
           | d # r' \<Rightarrow>
               if d = CHR '','' then parse_elements k pv r' (acc @ [v])
               else if d = CHR '']'' then Some (JArr (acc @ [v]), r')
               else None))"

primrec parse_members ::
  "nat \<Rightarrow> (string \<Rightarrow> (jsval \<times> string) option) \<Rightarrow> string \<Rightarrow> (string \<times> jsval) list \<Rightarrow> (jsval \<times> string) option" where
  "parse_members 0 pv cs acc = None"
| "parse_members (Suc k) pv cs acc =
     (case skip_ws cs of
        [] \<Rightarrow> None
      | q # r \<Rightarrow>
          if q \<noteq> dquote then None
          else
            (case parse_chars r [] of
               None \<Rightarrow> None
             | Some (key, r1) \<Rightarrow>
                 (case skip_ws r1 of
                    [] \<Rightarrow> None
                  | c # r2 \<Rightarrow>
                      if c \<noteq> CHR '':'' then None
                      else
                        (case pv r2 of
                           None \<Rightarrow> None
                         | Some (v, r3) \<Rightarrow>
                             (case skip_ws r3 of
                                [] \<Rightarrow> None
                              | d # r4 \<Rightarrow>
                                  if d = CHR '','' then parse_members k pv r4 (define_property acc key v)
                                  else if d = CHR ''}'' then Some (JObj (define_property acc key v), r4)
                                  else None)))))"

text \<open>One value. The first argument bounds the nesting depth.\<close>

primrec parse_value :: "nat \<Rightarrow> string \<Rightarrow> (jsval \<times> string) option" where
  "parse_value 0 cs = None"
| "parse_value (Suc n) cs =
     (case skip_ws cs of
        [] \<Rightarrow> None
      | c # r \<Rightarrow>
          if c = CHR ''{'' then
            (case skip_ws r of
               [] \<Rightarrow> None
             | d # r' \<Rightarrow>
                 if d = CHR ''}'' then Some (JObj [], r')
                 else parse_members (length r) (parse_value n) r [])
          else if c = CHR ''['' then
            (case skip_ws r of
               [] \<Rightarrow> None
             | d # r' \<Rightarrow>
                 if d = CHR '']'' then Some (JArr [], r')
                 else parse_elements (length r) (parse_value n) r [])
          else if c = dquote then
            (case parse_chars r [] of
               None \<Rightarrow> None
             | Some (s, r') \<Rightarrow> Some (JStr s, r'))
          else if take 4 (c # r) = ''true'' then Some (JBool True, drop 4 (c # r))
          else if take 5 (c # r) = ''false'' then Some (JBool False, drop 5 (c # r))
          else if take 4 (c # r) = ''null'' then Some (JNull, drop 4 (c # r))
          else
            (case parse_number (c # r) of
               None \<Rightarrow> None
             | Some (x, r') \<Rightarrow> Some (JNum x, r')))"

definition JSON_parse :: "string \<Rightarrow> jsval option" where
  "JSON_parse s =
     (case parse_value (Suc (length s)) s of
        None \<Rightarrow> None
      | Some (v, r) \<Rightarrow> if skip_ws r = [] then Some v else None)"

section \<open>The data model\<close>

text \<open>The adapter's construction parameters (\<^verbatim>\<open>this.endpoint\<close>, \<^verbatim>\<open>this.model\<close>, \<^verbatim>\<open>this.apiKey\<close>).\<close>

record adapter =
  endpoint :: string
  this_model :: string
  apiKey :: "string option"

subsection \<open>The neutral request\<close>

record schema =
  properties :: "(string \<times> jsval) list option"
  required :: "string list option"

record function_declaration =
  fd_name :: "string option"
  fd_description :: "string option"
  fd_parameters :: "schema option"

record tool =
  functionDeclarations :: "function_declaration list option"

record gen_config =
  systemInstruction :: pval
  maxOutputTokens :: "rat option"
  temperature :: "rat option"
  topP :: "rat option"
  tools :: "tool list option"

record request =
  contents :: pval
  config :: "gen_config option"

subsection \<open>The wire request\<close>

record wire_message =
  role :: string
  content :: string

text \<open>The object literal that \<^verbatim>\<open>convertToOpenAIFormat\<close> returns; \<open>wire_temperature\<close> is its
  \<^verbatim>\<open>temperature\<close> key.\<close>

record wire_request =
  model :: string
  messages :: "wire_message list"
  max_tokens :: rat
  wire_temperature :: rat
  top_p :: rat
  stream :: bool

record wire_parameters =
  wp_type :: string
  wp_properties :: "(string \<times> jsval) list"
  wp_required :: "string list"

record wire_function_spec =
  wf_name :: "string option"
  wf_description :: string
  wf_parameters :: wire_parameters

record wire_tool =
  wt_type :: string
  wt_function :: wire_function_spec

subsection \<open>The wire response\<close>

text \<open>The chat-completion object at its declared shape; \<open>None\<close> is an absent (or null)
  property.\<close>

record wire_function =
  fn_name :: "string option"
  arguments :: "string option"

record wire_tool_call =
  tc_function :: "wire_function option"

record wire_reply =
  reply_content :: "string option"
  tool_calls :: "wire_tool_call list option"

record wire_choice =
  message :: "wire_reply option"
  finish_reason :: "string option"

record wire_usage =
  prompt_tokens :: "rat option"
  completion_tokens :: "rat option"
  total_tokens :: "rat option"

record wire_response =
  choices :: "wire_choice list option"
  usage :: "wire_usage option"

subsection \<open>The neutral response\<close>

record function_call =
  name :: "string option"
  args :: jsval

datatype part = TextPart string | FunctionCallPart function_call

record content_t =
  parts :: "part list"
  content_role :: string

record candidate =
  cand_content :: content_t
  finishReason :: string
  index :: nat

record usage_metadata =
  promptTokenCount :: rat
  candidatesTokenCount :: rat
  totalTokenCount :: rat

text \<open>\<open>response_text\<close> is the property \<^verbatim>\<open>text\<close>. The properties \<^verbatim>\<open>data\<close>, \<^verbatim>\<open>executableCode\<close>
  and \<^verbatim>\<open>codeExecutionResult\<close>, always undefined, are left out.\<close>

record response =
  candidates :: "candidate list"
  usageMetadata :: usage_metadata
  response_text :: string
  functionCalls :: "function_call list"

record count_tokens_response =
  totalTokens :: int

subsection \<open>Failures\<close>

text \<open>
  Every \<^verbatim>\<open>throw\<close> and rejected promise of the source: the \<^verbatim>\<open>Error\<close> of a response with no
  first choice, the \<^verbatim>\<open>SyntaxError\<close> of \<^verbatim>\<open>JSON.parse\<close>, the \<^verbatim>\<open>Error\<close> of a status that is not ok
  (status and body text), a rejected \<^verbatim>\<open>fetch\<close>, a body that \<^verbatim>\<open>response.json()\<close> cannot read,
  the \<^verbatim>\<open>TypeError\<close> of reading a property of undefined, and the \<^verbatim>\<open>Error\<close> of \<^verbatim>\<open>embedContent\<close>.
\<close>

datatype error =
    NoChoices
  | ArgumentsSyntaxError
  | HttpError nat string
  | FetchRejected string
  | BodySyntaxError
  | TypeError
  | EmbeddingsNotSupported

text \<open>The specification's \<^verbatim>\<open>ProtocolError\<close>: no choices, or malformed tool-call arguments.\<close>

fun ProtocolError :: "error \<Rightarrow> bool" where
  "ProtocolError NoChoices = True"
| "ProtocolError ArgumentsSyntaxError = True"
| "ProtocolError (HttpError st body) = False"
| "ProtocolError (FetchRejected why) = False"
| "ProtocolError BodySyntaxError = False"
| "ProtocolError TypeError = False"
| "ProtocolError EmbeddingsNotSupported = False"

subsection \<open>The transport\<close>

text \<open>
  What \<^verbatim>\<open>fetch\<close> resolves to: \<^verbatim>\<open>response.ok\<close>, \<^verbatim>\<open>response.status\<close>, \<^verbatim>\<open>await response.text()\<close>
  and \<^verbatim>\<open>await response.json()\<close> (\<open>None\<close> when the body is not JSON). The transport is a parameter:
  a function of the URL, the headers and the payload.
\<close>

record http_response =
  ok :: bool
  status :: nat
  body_text :: string
  body_json :: "wire_response option"

type_synonym transport = "string \<Rightarrow> (string \<times> string) list \<Rightarrow> wire_request \<Rightarrow> error + http_response"

section \<open>Text extraction\<close>

text \<open>\<^verbatim>\<open>extractText(input: any): string\<close>, branch by branch.\<close>

fun extractText :: "pval \<Rightarrow> string" where
  "extractText (PStr s) = s"
| "extractText (PArr xs) = concat (filter (\<lambda>text. text \<noteq> []) (map extractText xs))"
| "extractText (PObj r t ps) =
     (if (case t of Some s \<Rightarrow> s \<noteq> [] | None \<Rightarrow> False)
      then (case t of Some s \<Rightarrow> s | None \<Rightarrow> [])
      else (case ps of
              Some p \<Rightarrow> if truthy p then extractText p else []
            | None \<Rightarrow> []))"
| "extractText PUndefined = []"
| "extractText PNull = []"
| "extractText (PBool b) = []"
| "extractText (PNum n) = []"

section \<open>The request translator\<close>

text \<open>
  The body of the loop over the turns: what one turn pushes onto \<^verbatim>\<open>messages\<close>. A turn
  with no \<^verbatim>\<open>parts\<close> property hands \<^verbatim>\<open>undefined\<close> to \<open>extractText\<close>.
\<close>

definition pushContent :: "pval \<Rightarrow> wire_message list \<Rightarrow> wire_message list" where
  "pushContent content' messages' =
     (case content' of
        PStr s \<Rightarrow> messages' @ [\<lparr>role = ''user'', content = s\<rparr>]
      | PObj (Some r) t ps \<Rightarrow>
          (let role' = (if r = ''model'' then ''assistant'' else r);
               text' = extractText (case ps of Some p \<Rightarrow> p | None \<Rightarrow> PUndefined)
           in if text' \<noteq> [] then messages' @ [\<lparr>role = role', content = text'\<rparr>]
              else messages')
      | _ \<Rightarrow> messages')"

fun convertContents :: "pval list \<Rightarrow> wire_message list \<Rightarrow> wire_message list" where
  "convertContents [] messages' = messages'"
| "convertContents (c # cs) messages' = convertContents cs (pushContent c messages')"

definition convertToOpenAIFormat :: "adapter \<Rightarrow> request \<Rightarrow> wire_request" where
  "convertToOpenAIFormat this request' =
     (let messages0 =
            (case config request' of
               Some c \<Rightarrow>
                 if truthy (systemInstruction c)
                 then [\<lparr>role = ''system'', content = extractText (systemInstruction c)\<rparr>]
                 else []
             | None \<Rightarrow> []);
          messages1 =
            (if truthy (contents request')
             then convertContents
                    (case contents request' of PArr xs \<Rightarrow> xs | c \<Rightarrow> [c]) messages0
             else messages0)
      in \<lparr>model = this_model this,
          messages = messages1,
          max_tokens = number_or (case config request' of Some c \<Rightarrow> maxOutputTokens c | None \<Rightarrow> None) 4096,
          wire_temperature = number_or (case config request' of Some c \<Rightarrow> temperature c | None \<Rightarrow> None) (7 / 10),
          top_p = number_or (case config request' of Some c \<Rightarrow> topP c | None \<Rightarrow> None) 1,
          stream = False\<rparr>)"

text \<open>\<^verbatim>\<open>convertToolsToOpenAIFormat\<close>: a private method that no method of the class calls.
  The template \<^verbatim>\<open>`Execute ${func.name}`\<close> prints an absent name as \<^verbatim>\<open>undefined\<close>.\<close>

definition convertFunctionDeclaration :: "function_declaration \<Rightarrow> wire_tool" where
  "convertFunctionDeclaration func =
     \<lparr>wt_type = ''function'',
      wt_function =
        \<lparr>wf_name = fd_name func,
         wf_description =
           string_or (fd_description func)
             (''Execute '' @ (case fd_name func of Some n \<Rightarrow> n | None \<Rightarrow> ''undefined'')),
         wf_parameters =
           \<lparr>wp_type = ''object'',
            wp_properties =
              (case fd_parameters func of
                 Some ps \<Rightarrow> (case properties ps of Some p \<Rightarrow> p | None \<Rightarrow> [])
               | None \<Rightarrow> []),
            wp_required =
              (case fd_parameters func of
                 Some ps \<Rightarrow> (case required ps of Some q \<Rightarrow> q | None \<Rightarrow> [])
               | None \<Rightarrow> [])\<rparr>\<rparr>\<rparr>"

fun convertToolsToOpenAIFormat :: "tool list \<Rightarrow> wire_tool list" where
  "convertToolsToOpenAIFormat [] = []"
| "convertToolsToOpenAIFormat (t # ts) =
     (case functionDeclarations t of
        Some fs \<Rightarrow> map convertFunctionDeclaration fs
      | None \<Rightarrow> []) @ convertToolsToOpenAIFormat ts"

section \<open>The response translator\<close>

definition convertUsage :: "wire_response \<Rightarrow> usage_metadata" where
  "convertUsage openaiResponse =
     \<lparr>promptTokenCount =
        number_or (case usage openaiResponse of Some u \<Rightarrow> prompt_tokens u | None \<Rightarrow> None) 0,
      candidatesTokenCount =
        number_or (case usage openaiResponse of Some u \<Rightarrow> completion_tokens u | None \<Rightarrow> None) 0,
      totalTokenCount =
        number_or (case usage openaiResponse of Some u \<Rightarrow> total_tokens u | None \<Rightarrow> None) 0\<rparr>"

text \<open>\<^verbatim>\<open>openaiResponse.choices?.[0]\<close>.\<close>

definition first_choice :: "wire_response \<Rightarrow> wire_choice option" where
  "first_choice openaiResponse =
     (case choices openaiResponse of
        Some (c # cs) \<Rightarrow> Some c
      | _ \<Rightarrow> None)"

text \<open>The text handed to the parser: \<^verbatim>\<open>functionCall.function?.arguments || '{}'\<close>.\<close>

definition arguments_text :: "wire_tool_call \<Rightarrow> string" where
  "arguments_text functionCall =
     string_or (case tc_function functionCall of Some f \<Rightarrow> arguments f | None \<Rightarrow> None) ''{}''"

text \<open>\<^verbatim>\<open>convertFromOpenAIFormat\<close>; \<open>parse\<close> is the runtime's \<^verbatim>\<open>JSON.parse\<close>.\<close>

definition convertFromOpenAIFormat :: "(string \<Rightarrow> jsval option) \<Rightarrow> wire_response \<Rightarrow> error + response" where
  "convertFromOpenAIFormat parse openaiResponse =
     (case first_choice openaiResponse of
        None \<Rightarrow> Inl NoChoices
      | Some choice \<Rightarrow>
          (let text' = string_or (case message choice of Some m \<Rightarrow> reply_content m | None \<Rightarrow> None) [];
               finishReason' = string_or (finish_reason choice) ''stop'';
               toolCalls = (case message choice of Some m \<Rightarrow> tool_calls m | None \<Rightarrow> None)
           in case toolCalls of
                Some (functionCall # others) \<Rightarrow>
                  (case parse (arguments_text functionCall) of
                     None \<Rightarrow> Inl ArgumentsSyntaxError
                   | Some a \<Rightarrow>
                       (let functionCallPart =
                              \<lparr>name = (case tc_function functionCall of Some f \<Rightarrow> fn_name f | None \<Rightarrow> None),
                               args = a\<rparr>
                        in Inr \<lparr>candidates =
                                  [\<lparr>cand_content =
                                      \<lparr>parts = (if text' \<noteq> []
                                                then [TextPart text', FunctionCallPart functionCallPart]
                                                else [FunctionCallPart functionCallPart]),
                                       content_role = ''model''\<rparr>,
                                    finishReason = ''STOP'',
                                    index = 0\<rparr>],
                                usageMetadata = convertUsage openaiResponse,
                                response_text = text',
                                functionCalls = [functionCallPart]\<rparr>))
              | _ \<Rightarrow>
                  Inr \<lparr>candidates =
                         [\<lparr>cand_content = \<lparr>parts = [TextPart text'], content_role = ''model''\<rparr>,
                           finishReason = toUpperCase finishReason',
                           index = 0\<rparr>],
                       usageMetadata = convertUsage openaiResponse,
                       response_text = text',
                       functionCalls = []\<rparr>))"

section \<open>The public operations\<close>

text \<open>
  \<^verbatim>\<open>generateContent\<close>: build the payload and the headers, post, refuse a status that is not ok,
  read the body and translate it. The \<^verbatim>\<open>catch\<close> block rethrows what it caught. Console and
  file diagnostics are left out.
\<close>

definition request_headers :: "adapter \<Rightarrow> (string \<times> string) list" where
  "request_headers this =
     [(''Content-Type'', ''application/json'')] @
     (case apiKey this of
        Some k \<Rightarrow> if k \<noteq> [] then [(''Authorization'', ''Bearer '' @ k)] else []
      | None \<Rightarrow> [])"

definition generateContent ::
  "(string \<Rightarrow> jsval option) \<Rightarrow> transport \<Rightarrow> adapter \<Rightarrow> request \<Rightarrow> error + response" where
  "generateContent parse fetch this request' =
     (let openaiRequest = convertToOpenAIFormat this request';
          headers = request_headers this
      in case fetch (endpoint this @ ''/chat/completions'') headers openaiRequest of
           Inl e \<Rightarrow> Inl e
         | Inr response' \<Rightarrow>
             if \<not> ok response' then Inl (HttpError (status response') (body_text response'))
             else (case body_json response' of
                     None \<Rightarrow> Inl BodySyntaxError
                   | Some data \<Rightarrow> convertFromOpenAIFormat parse data))"

text \<open>
  \<^verbatim>\<open>generateContentStream\<close>: await \<open>generateContent\<close>, then return a generator whose body is the
  single statement \<^verbatim>\<open>yield response\<close>. A generator is the list of what it yields before it
  completes.
\<close>

definition single_response_generator :: "response \<Rightarrow> response list" where
  "single_response_generator response' = [response']"

definition generateContentStream ::
  "(string \<Rightarrow> jsval option) \<Rightarrow> transport \<Rightarrow> adapter \<Rightarrow> request \<Rightarrow> error + response list" where
  "generateContentStream parse fetch this request' =
     (case generateContent parse fetch this request' of
        Inl e \<Rightarrow> Inl e
      | Inr response' \<Rightarrow> Inr (single_response_generator response'))"

text \<open>
  \<^verbatim>\<open>countTokens\<close>: the argument is \<^verbatim>\<open>request.contents\<close>, read only through the serializer.
  Reading \<^verbatim>\<open>length\<close> of an undefined serialization would be a \<^verbatim>\<open>TypeError\<close>.
\<close>

definition countTokens :: "(rat \<Rightarrow> string) \<Rightarrow> jsval \<Rightarrow> error + count_tokens_response" where
  "countTokens N contents' =
     (case JSON_stringify N (if truthy_jsval contents' then contents' else JStr []) of
        None \<Rightarrow> Inl TypeError
      | Some text' \<Rightarrow> Inr \<lparr>totalTokens = Math_ceil (of_nat (length text') / 4)\<rparr>)"

definition embedContent :: "'a \<Rightarrow> error + 'b" where
  "embedContent request' = Inl EmbeddingsNotSupported"

text \<open>The condition of the plain-text branch: \<^verbatim>\<open>toolCalls && toolCalls.length > 0\<close> is false.\<close>

definition no_tool_call :: "wire_choice \<Rightarrow> bool" where
  "no_tool_call choice =
     (case message choice of
        None \<Rightarrow> True
      | Some m \<Rightarrow> (case tool_calls m of None \<Rightarrow> True | Some [] \<Rightarrow> True | Some (tc # rest) \<Rightarrow> False))"

section \<open>Sample inputs\<close>

definition this0 :: adapter where
  "this0 = \<lparr>endpoint = ''http://localhost:3000/api'', this_model = ''m'', apiKey = None\<rparr>"

definition request_hi :: request where
  "request_hi = \<lparr>contents = PStr ''hi'', config = None\<rparr>"

text \<open>A transport that answers every post with status 200 and the given body, and one that
  answers with a status that is not ok.\<close>

definition fetch_ok :: "wire_response \<Rightarrow> transport" where
  "fetch_ok data url headers body =
     Inr \<lparr>ok = True, status = 200, body_text = [], body_json = Some data\<rparr>"

definition fetch_status :: "nat \<Rightarrow> string \<Rightarrow> transport" where
  "fetch_status st body_text' url headers body =
     Inr \<lparr>ok = False, status = st, body_text = body_text', body_json = None\<rparr>"

text \<open>A reply whose first choice carries one call of \<^verbatim>\<open>foo\<close>, and a plain-text reply.\<close>

definition reply_tool_call :: "string option \<Rightarrow> string option \<Rightarrow> wire_response" where
  "reply_tool_call text' arguments' =
     \<lparr>choices =
        Some [\<lparr>message =
                 Some \<lparr>reply_content = text',
                       tool_calls =
                         Some [\<lparr>tc_function = Some \<lparr>fn_name = Some ''foo'', arguments = arguments'\<rparr>\<rparr>]\<rparr>,
               finish_reason = Some ''tool_calls''\<rparr>],
      usage = None\<rparr>"

definition reply_text :: wire_response where
  "reply_text =
     \<lparr>choices = Some [\<lparr>message = Some \<lparr>reply_content = Some ''hello'', tool_calls = None\<rparr>,
                        finish_reason = Some ''length''\<rparr>],
      usage = Some \<lparr>prompt_tokens = Some 7, completion_tokens = None, total_tokens = Some 9\<rparr>\<rparr>"

text \<open>The text \<^verbatim>\<open>{"x":1}\<close>.\<close>

definition text_x1 :: string where
  "text_x1 = [CHR ''{'', dquote, CHR ''x'', dquote] @ '':1}''"

text \<open>A number printer for contents that hold no number, where the serializer never calls it.\<close>

definition unused_printer :: "rat \<Rightarrow> string" where
  "unused_printer n = []"

definition tools_foo :: "tool list" where
  "tools_foo =
     [\<lparr>functionDeclarations =
         Some [\<lparr>fd_name = Some ''foo'', fd_description = None, fd_parameters = None\<rparr>]\<rparr>]"

section \<open>Facts about the runtime model\<close>

lemma concat_filter_nonempty: "concat (filter (\<lambda>t. t \<noteq> []) xs) = concat xs"
  by (induction xs) auto

lemma string_or_empty: "string_or x [] = (case x of Some s \<Rightarrow> s | None \<Rightarrow> [])"
  by (simp add: string_or_def split: option.splits)

lemma number_or_zero: "number_or x 0 = (case x of Some n \<Rightarrow> n | None \<Rightarrow> 0)"
  by (simp add: number_or_def split: option.splits)

lemma JSON_parse_empty_object: "JSON_parse ''{}'' = Some (JObj [])"
  by (simp add: JSON_parse_def skip_ws_def is_ws_def)

lemma JSON_parse_empty_text: "JSON_parse [] = None"
  by (simp add: JSON_parse_def skip_ws_def)

lemma JSON_parse_x1: "JSON_parse text_x1 = Some (JObj [(''x'', JNum 1)])"
  by code_simp

lemma JSON_parse_unfinished: "JSON_parse ''{x'' = None"
  by code_simp

lemma Math_ceil_quarter: "Math_ceil (of_nat n / 4) = int ((n + 3) div 4)"
proof -
  have "\<lceil>(of_nat n :: rat) / 4\<rceil> = \<lceil>(of_int (int n) :: rat) / of_int 4\<rceil>" by simp
  also have "\<dots> = - ((- int n) div 4)"
    unfolding ceiling_divide_eq_div by simp
  also have "\<dots> = int ((n + 3) div 4)" by linarith
  finally show ?thesis by (simp add: Math_ceil_def)
qed

lemma quote_abcd: "quote ''abcd'' = dquote # ''abcd'' @ [dquote]"
  by (simp add: quote_def escape_char_def dquote_def backslash_def)

lemma quote_abcdefgh: "quote ''abcdefgh'' = dquote # ''abcdefgh'' @ [dquote]"
  by (simp add: quote_def escape_char_def dquote_def backslash_def)

section \<open>Text extraction: claims C7 and C8\<close>

lemma extractText_falsy: "\<not> truthy p \<Longrightarrow> extractText p = []"
  by (cases p) auto

text \<open>
  Claim C7, as amended. \<open>extractText\<close> is a total function with these rules, in this order: a
  string returns itself; a sequence returns the concatenation, in order and with no separator,
  of the texts extracted from its elements (the empty ones contribute nothing); an object
  whose \<^verbatim>\<open>text\<close> is a non-empty string returns it, whether or not it has \<^verbatim>\<open>parts\<close>; an object
  whose \<^verbatim>\<open>text\<close> is absent or empty returns what is extracted from its \<^verbatim>\<open>parts\<close> when it has that
  property and the empty string when it has not; every other input returns the empty string.
\<close>

theorem extractText_rules:
  "extractText (PStr s) = s
   \<and> extractText (PArr xs) = concat (filter (\<lambda>t. t \<noteq> []) (map extractText xs))
   \<and> extractText (PArr xs) = concat (map extractText xs)
   \<and> (t \<noteq> [] \<longrightarrow> extractText (PObj r (Some t) ps) = t)
   \<and> extractText (PObj r None (Some p)) = extractText p
   \<and> extractText (PObj r (Some []) (Some p)) = extractText p
   \<and> extractText (PObj r None None) = []
   \<and> extractText (PObj r (Some []) None) = []
   \<and> extractText PUndefined = [] \<and> extractText PNull = []
   \<and> extractText (PBool b) = [] \<and> extractText (PNum n) = []"
  by (simp add: concat_filter_nonempty extractText_falsy)

theorem extractText_rules_witness:
  "extractText (PStr ''ab'') = ''ab''
   \<and> extractText (PArr [PStr ''ab'', PNull, PObj None (Some ''cd'') None]) = ''abcd''
   \<and> extractText (PObj None (Some ''cd'') (Some (PStr ''zz''))) = ''cd''
   \<and> extractText (PObj None None (Some (PArr [PStr ''x'', PStr ''y'']))) = ''xy''"
  using extractText_rules [of "''ab''" "[PStr ''ab'', PNull, PObj None (Some ''cd'') None]" "''cd''"
      None "Some (PStr ''zz'')" "PArr [PStr ''x'', PStr ''y'']" True 0]
  by simp

text \<open>The claim as it stands fails on an object with an empty \<^verbatim>\<open>text\<close> and a \<^verbatim>\<open>parts\<close> that
  holds text: the result is the text of the parts, not the \<^verbatim>\<open>text\<close> property.\<close>

theorem extractText_empty_text_counterexample:
  "extractText (PObj None (Some []) (Some (PArr [PObj None (Some ''abc'') None]))) = ''abc''
   \<and> extractText (PObj None (Some []) (Some (PArr [PObj None (Some ''abc'') None]))) \<noteq> []"
  by simp

text \<open>
  Claim C8. \<open>extractText\<close> is idempotent on strings, and the text of a two-element sequence is
  the text of the first element's singleton followed by that of the second's.
\<close>

theorem extractText_algebra:
  "extractText (PStr (extractText (PStr s))) = extractText (PStr s)
   \<and> extractText (PArr [a, b]) = extractText (PArr [a]) @ extractText (PArr [b])"
  by simp

section \<open>The request translator: claims C5, C4 and C2\<close>

lemma pushContent_append: "pushContent c ms = ms @ pushContent c []"
  by (simp add: pushContent_def Let_def split: pval.splits option.splits)

lemma convertContents_append:
  "convertContents cs ms = ms @ concat (map (\<lambda>c. pushContent c []) cs)"
proof (induction cs arbitrary: ms)
  case Nil
  show ?case by simp
next
  case (Cons c cs)
  have "convertContents (c # cs) ms = convertContents cs (pushContent c ms)" by simp
  also have "\<dots> = pushContent c ms @ concat (map (\<lambda>c. pushContent c []) cs)"
    by (rule Cons.IH)
  also have "\<dots> = ms @ pushContent c [] @ concat (map (\<lambda>c. pushContent c []) cs)"
    using pushContent_append [of c ms] by simp
  finally show ?case by simp
qed

lemma messages_of_turns:
  "messages (convertToOpenAIFormat this \<lparr>contents = PArr turns, config = cfg\<rparr>)
     = messages (convertToOpenAIFormat this \<lparr>contents = PUndefined, config = cfg\<rparr>)
       @ concat (map (\<lambda>c. pushContent c []) turns)"
  by (simp add: convertToOpenAIFormat_def Let_def convertContents_append)

lemma messages_of_single:
  "(\<forall>xs. c \<noteq> PArr xs) \<Longrightarrow>
   messages (convertToOpenAIFormat this \<lparr>contents = c, config = cfg\<rparr>)
     = messages (convertToOpenAIFormat this
          \<lparr>contents = (if truthy c then PArr [c] else PUndefined), config = cfg\<rparr>)"
  by (cases c) (simp_all add: convertToOpenAIFormat_def Let_def)

lemma pushContent_string: "pushContent (PStr s) [] = [\<lparr>role = ''user'', content = s\<rparr>]"
  by (simp add: pushContent_def)

lemma pushContent_turn:
  "pushContent (PObj (Some r) t ps) [] =
     (if extractText (case ps of Some p \<Rightarrow> p | None \<Rightarrow> PUndefined) = [] then []
      else [\<lparr>role = (if r = ''model'' then ''assistant'' else r),
             content = extractText (case ps of Some p \<Rightarrow> p | None \<Rightarrow> PUndefined)\<rparr>])"
  by (simp add: pushContent_def Let_def)

lemma pushContent_other:
  "pushContent (PObj None t ps) [] = []" "pushContent (PArr xs) [] = []"
  "pushContent PUndefined [] = []" "pushContent PNull [] = []"
  "pushContent (PBool b) [] = []" "pushContent (PNum n) [] = []"
  by (simp_all add: pushContent_def)

text \<open>
  Claim C5, as amended. The messages of a sequence of turns are the system message, if any,
  followed by what each turn emits, in order. A bare string turn emits
  \<^verbatim>\<open>{role: user, content: string}\<close> whatever the string, the empty string included. A turn with a
  role emits one message, with \<^verbatim>\<open>model\<close> mapped to \<^verbatim>\<open>assistant\<close> and any other role unchanged,
  when the text extracted from its parts is non-empty, and nothing otherwise; so no message
  that comes from such a turn has an empty content. Any other turn emits nothing. A contents
  value that is not a sequence counts as a sequence of one turn when it is truthy and emits
  nothing when it is falsy.
\<close>

theorem turns_to_messages:
  "messages (convertToOpenAIFormat this \<lparr>contents = PArr turns, config = cfg\<rparr>)
     = messages (convertToOpenAIFormat this \<lparr>contents = PUndefined, config = cfg\<rparr>)
       @ concat (map (\<lambda>c. pushContent c []) turns)
   \<and> pushContent (PStr s) [] = [\<lparr>role = ''user'', content = s\<rparr>]
   \<and> pushContent (PObj (Some r) t ps) [] =
       (if extractText (case ps of Some p \<Rightarrow> p | None \<Rightarrow> PUndefined) = [] then []
        else [\<lparr>role = (if r = ''model'' then ''assistant'' else r),
               content = extractText (case ps of Some p \<Rightarrow> p | None \<Rightarrow> PUndefined)\<rparr>])
   \<and> (\<forall>m \<in> set (pushContent (PObj (Some r) t ps) []). content m \<noteq> [])
   \<and> pushContent (PObj None t ps) [] = []
   \<and> pushContent (PArr xs) [] = [] \<and> pushContent PUndefined [] = []
   \<and> pushContent PNull [] = [] \<and> pushContent (PBool b) [] = [] \<and> pushContent (PNum n) [] = []
   \<and> ((\<forall>ys. c \<noteq> PArr ys) \<longrightarrow>
        messages (convertToOpenAIFormat this \<lparr>contents = c, config = cfg\<rparr>)
          = messages (convertToOpenAIFormat this
               \<lparr>contents = (if truthy c then PArr [c] else PUndefined), config = cfg\<rparr>))"
  using messages_of_single [of c this cfg]
  by (simp add: messages_of_turns pushContent_string pushContent_turn pushContent_other)

theorem turns_to_messages_witness:
  "messages (convertToOpenAIFormat this0
      \<lparr>contents = PArr [PStr ''hi'',
                         PObj (Some ''model'') None (Some (PArr [PObj None (Some ''yo'') None])),
                         PObj (Some ''user'') None (Some (PArr [PObj None None None]))],
       config = None\<rparr>)
     = [\<lparr>role = ''user'', content = ''hi''\<rparr>, \<lparr>role = ''assistant'', content = ''yo''\<rparr>]
   \<and> pushContent (PObj (Some ''model'') None (Some (PArr [PObj None (Some ''yo'') None]))) []
     = [\<lparr>role = ''assistant'', content = ''yo''\<rparr>]
   \<and> messages (convertToOpenAIFormat this0 \<lparr>contents = PStr ''hi'', config = None\<rparr>)
     = [\<lparr>role = ''user'', content = ''hi''\<rparr>]"
  using turns_to_messages [of this0
      "[PStr ''hi'', PObj (Some ''model'') None (Some (PArr [PObj None (Some ''yo'') None])),
        PObj (Some ''user'') None (Some (PArr [PObj None None None]))]"
      None "''hi''" "''model''" None "Some (PArr [PObj None (Some ''yo'') None])" "[]" True 0
      "PStr ''hi''"]
  by (simp add: pushContent_def convertToOpenAIFormat_def)

text \<open>The claim as it stands fails on a sequence holding the empty string: the turn is
  forwarded as a message with an empty content.\<close>

theorem empty_string_turn_counterexample:
  "messages (convertToOpenAIFormat this0 \<lparr>contents = PArr [PStr []], config = None\<rparr>)
     = [\<lparr>role = ''user'', content = []\<rparr>]"
  by (simp add: convertToOpenAIFormat_def pushContent_def)

text \<open>
  Claim C4 fails on the code: a sampling parameter given as 0 is falsy, and \<^verbatim>\<open>||\<close> replaces it
  by the default. With \<^verbatim>\<open>maxOutputTokens\<close>, \<^verbatim>\<open>temperature\<close> and \<^verbatim>\<open>topP\<close> all 0, the payload carries
  4096, 0.7 and 1.
\<close>

theorem zero_sampling_parameters:
  "convertToOpenAIFormat this0
     \<lparr>contents = PStr ''hi'',
      config = Some \<lparr>systemInstruction = PUndefined, maxOutputTokens = Some 0,
                     temperature = Some 0, topP = Some 0, tools = None\<rparr>\<rparr>
   = \<lparr>model = ''m'', messages = [\<lparr>role = ''user'', content = ''hi''\<rparr>],
      max_tokens = 4096, wire_temperature = 7 / 10, top_p = 1, stream = False\<rparr>"
  by (simp add: convertToOpenAIFormat_def pushContent_def number_or_def this0_def)

lemma payload_ignores_tools:
  "convertToOpenAIFormat this \<lparr>contents = c, config = Some (cfg\<lparr>tools := ts\<rparr>)\<rparr>
     = convertToOpenAIFormat this \<lparr>contents = c, config = Some (cfg\<lparr>tools := None\<rparr>)\<rparr>"
  by (simp add: convertToOpenAIFormat_def)

text \<open>
  Claim C2 fails on the code: \<open>convertToolsToOpenAIFormat\<close> maps a declaration as the claim
  says, but \<open>convertToOpenAIFormat\<close> never calls it. For a request that declares the function
  \<^verbatim>\<open>foo\<close>, the payload has the six properties of the object literal and no function spec; it is
  the payload of the same request without tools.
\<close>

theorem tools_not_forwarded:
  "convertToolsToOpenAIFormat tools_foo
   = [\<lparr>wt_type = ''function'',
       wt_function = \<lparr>wf_name = Some ''foo'', wf_description = ''Execute foo'',
                      wf_parameters = \<lparr>wp_type = ''object'', wp_properties = [], wp_required = []\<rparr>\<rparr>\<rparr>]
   \<and> convertToOpenAIFormat this0
       \<lparr>contents = PStr ''hi'',
        config = Some \<lparr>systemInstruction = PUndefined, maxOutputTokens = None, temperature = None,
                       topP = None, tools = Some tools_foo\<rparr>\<rparr>
     = \<lparr>model = ''m'', messages = [\<lparr>role = ''user'', content = ''hi''\<rparr>],
        max_tokens = 4096, wire_temperature = 7 / 10, top_p = 1, stream = False\<rparr>
   \<and> convertToOpenAIFormat this0
       \<lparr>contents = PStr ''hi'',
        config = Some \<lparr>systemInstruction = PUndefined, maxOutputTokens = None, temperature = None,
                       topP = None, tools = Some tools_foo\<rparr>\<rparr>
     = convertToOpenAIFormat this0
       \<lparr>contents = PStr ''hi'',
        config = Some \<lparr>systemInstruction = PUndefined, maxOutputTokens = None, temperature = None,
                       topP = None, tools = None\<rparr>\<rparr>"
  by (simp add: convertToOpenAIFormat_def pushContent_def number_or_def this0_def tools_foo_def
        convertFunctionDeclaration_def string_or_def)

section \<open>The response translator: claims C1, C3 and C10\<close>

lemma arguments_text_eq:
  "arguments_text tc =
     (case (case tc_function tc of Some f \<Rightarrow> arguments f | None \<Rightarrow> None) of
        Some s \<Rightarrow> if s = [] then ''{}'' else s
      | None \<Rightarrow> ''{}'')"
  by (simp add: arguments_text_def string_or_def split: option.splits)

lemma convert_tool_call:
  assumes "choices r = Some (choice # others)" and "message choice = Some m"
      and "tool_calls m = Some (tc # rest)"
  shows "convertFromOpenAIFormat parse r =
     (case parse (arguments_text tc) of
        None \<Rightarrow> Inl ArgumentsSyntaxError
      | Some a \<Rightarrow>
          Inr \<lparr>candidates =
                 [\<lparr>cand_content =
                     \<lparr>parts =
                        (if string_or (reply_content m) [] \<noteq> []
                         then [TextPart (string_or (reply_content m) []),
                               FunctionCallPart
                                 \<lparr>name = (case tc_function tc of Some f \<Rightarrow> fn_name f | None \<Rightarrow> None),
                                  args = a\<rparr>]
                         else [FunctionCallPart
                                 \<lparr>name = (case tc_function tc of Some f \<Rightarrow> fn_name f | None \<Rightarrow> None),
                                  args = a\<rparr>]),
                      content_role = ''model''\<rparr>,
                   finishReason = ''STOP'', index = 0\<rparr>],
               usageMetadata = convertUsage r,
               response_text = string_or (reply_content m) [],
               functionCalls =
                 [\<lparr>name = (case tc_function tc of Some f \<Rightarrow> fn_name f | None \<Rightarrow> None),
                   args = a\<rparr>]\<rparr>)"
  using assms
  by (simp add: convertFromOpenAIFormat_def first_choice_def Let_def split: option.splits)

lemma convert_no_choice:
  "choices r = None \<or> choices r = Some [] \<Longrightarrow> convertFromOpenAIFormat parse r = Inl NoChoices"
  by (auto simp: convertFromOpenAIFormat_def first_choice_def)

lemma convert_plain:
  assumes "choices r = Some (choice # others)" and "no_tool_call choice"
  shows "convertFromOpenAIFormat parse r =
     Inr \<lparr>candidates =
            [\<lparr>cand_content =
                \<lparr>parts =
                   [TextPart (string_or (case message choice of Some m \<Rightarrow> reply_content m | None \<Rightarrow> None) [])],
                 content_role = ''model''\<rparr>,
              finishReason = toUpperCase (string_or (finish_reason choice) ''stop''), index = 0\<rparr>],
          usageMetadata = convertUsage r,
          response_text = string_or (case message choice of Some m \<Rightarrow> reply_content m | None \<Rightarrow> None) [],
          functionCalls = []\<rparr>"
  using assms
  by (simp add: convertFromOpenAIFormat_def first_choice_def no_tool_call_def Let_def
           split: option.splits list.splits)

text \<open>The three ways through \<open>convertFromOpenAIFormat\<close>.\<close>

lemma choice_cases:
  obtains "choices r = None \<or> choices r = Some []"
  | choice others where "choices r = Some (choice # others)" "no_tool_call choice"
  | choice others m tc rest where "choices r = Some (choice # others)" "message choice = Some m"
      "tool_calls m = Some (tc # rest)"
proof (cases "choices r")
  case None
  then show ?thesis using that(1) by simp
next
  case (Some cs)
  show ?thesis
  proof (cases cs)
    case Nil
    with Some show ?thesis using that(1) by simp
  next
    case (Cons choice others)
    show ?thesis
    proof (cases "no_tool_call choice")
      case True
      with Some Cons show ?thesis using that(2) by simp
    next
      case False
      then obtain m tc rest where "message choice = Some m" "tool_calls m = Some (tc # rest)"
        by (auto simp: no_tool_call_def split: option.splits list.splits)
      with Some Cons show ?thesis using that(3) by simp
    qed
  qed
qed

lemma generateContent_body:
  assumes "fetch (endpoint this @ ''/chat/completions'') (request_headers this)
             (convertToOpenAIFormat this req) = Inr hr"
      and "ok hr" and "body_json hr = Some r"
  shows "generateContent parse fetch this req = convertFromOpenAIFormat parse r"
  using assms by (simp add: generateContent_def Let_def)

text \<open>
  Claim C1, as amended. When the first choice of a wire response has a non-empty
  \<^verbatim>\<open>tool_calls\<close>, only the first call is read. The text handed to the parser is its arguments
  string, or \<^verbatim>\<open>{}\<close> when that string is absent or empty. When the parser accepts it, the
  response has a single candidate whose parts are the text part followed by the function-call
  part when the reply's text is non-empty and the function-call part alone otherwise; the
  function-call part holds the call's name and the parsed arguments; \<^verbatim>\<open>functionCalls\<close> holds
  exactly that call; and the finish reason is \<^verbatim>\<open>STOP\<close> whatever the wire's \<^verbatim>\<open>finish_reason\<close>.
\<close>

theorem tool_call_candidate:
  assumes "choices r = Some (choice # others)" and "message choice = Some m"
      and "tool_calls m = Some (tc # rest)"
      and "parse (case (case tc_function tc of Some f \<Rightarrow> arguments f | None \<Rightarrow> None) of
                    Some s \<Rightarrow> if s = [] then ''{}'' else s
                  | None \<Rightarrow> ''{}'') = Some a"
  shows "\<exists>resp c. convertFromOpenAIFormat parse r = Inr resp
           \<and> candidates resp = [c]
           \<and> parts (cand_content c) =
               (case reply_content m of
                  None \<Rightarrow>
                    [FunctionCallPart
                       \<lparr>name = (case tc_function tc of Some f \<Rightarrow> fn_name f | None \<Rightarrow> None), args = a\<rparr>]
                | Some t \<Rightarrow>
                    if t = []
                    then [FunctionCallPart
                            \<lparr>name = (case tc_function tc of Some f \<Rightarrow> fn_name f | None \<Rightarrow> None), args = a\<rparr>]
                    else [TextPart t,
                          FunctionCallPart
                            \<lparr>name = (case tc_function tc of Some f \<Rightarrow> fn_name f | None \<Rightarrow> None), args = a\<rparr>])
           \<and> functionCalls resp =
               [\<lparr>name = (case tc_function tc of Some f \<Rightarrow> fn_name f | None \<Rightarrow> None), args = a\<rparr>]
           \<and> finishReason c = ''STOP''"
proof -
  from assms(4) have "parse (arguments_text tc) = Some a"
    by (simp add: arguments_text_eq)
  with convert_tool_call [OF assms(1-3), of parse] show ?thesis
    by (simp add: string_or_empty split: option.splits)
qed

theorem tool_call_candidate_witness:
  "\<exists>resp c. convertFromOpenAIFormat JSON_parse (reply_tool_call (Some ''ok'') (Some text_x1)) = Inr resp
      \<and> candidates resp = [c]
      \<and> parts (cand_content c) =
          [TextPart ''ok'', FunctionCallPart \<lparr>name = Some ''foo'', args = JObj [(''x'', JNum 1)]\<rparr>]
      \<and> functionCalls resp = [\<lparr>name = Some ''foo'', args = JObj [(''x'', JNum 1)]\<rparr>]
      \<and> finishReason c = ''STOP''"
proof -
  have nonempty: "text_x1 \<noteq> []"
    by (simp add: text_x1_def)
  show ?thesis
    using tool_call_candidate [of "reply_tool_call (Some ''ok'') (Some text_x1)"
        "\<lparr>message =
            Some \<lparr>reply_content = Some ''ok'',
                  tool_calls = Some [\<lparr>tc_function = Some \<lparr>fn_name = Some ''foo'', arguments = Some text_x1\<rparr>\<rparr>]\<rparr>,
          finish_reason = Some ''tool_calls''\<rparr>"
        "[]"
        "\<lparr>reply_content = Some ''ok'',
          tool_calls = Some [\<lparr>tc_function = Some \<lparr>fn_name = Some ''foo'', arguments = Some text_x1\<rparr>\<rparr>]\<rparr>"
        "\<lparr>tc_function = Some \<lparr>fn_name = Some ''foo'', arguments = Some text_x1\<rparr>\<rparr>"
        "[]" JSON_parse "JObj [(''x'', JNum 1)]"]
      JSON_parse_x1 nonempty
    by (simp add: reply_tool_call_def)
qed

text \<open>The claim as it stands fails on an arguments string that is present and empty: with
  \<^verbatim>\<open>??\<close> the empty string would go to the parser, which refuses it; the code parses
  \<^verbatim>\<open>{}\<close> instead and returns a call with no arguments.\<close>

theorem empty_arguments_counterexample:
  "convertFromOpenAIFormat JSON_parse (reply_tool_call None (Some [])) =
     Inr \<lparr>candidates =
            [\<lparr>cand_content =
                \<lparr>parts = [FunctionCallPart \<lparr>name = Some ''foo'', args = JObj []\<rparr>],
                 content_role = ''model''\<rparr>,
              finishReason = ''STOP'', index = 0\<rparr>],
          usageMetadata = \<lparr>promptTokenCount = 0, candidatesTokenCount = 0, totalTokenCount = 0\<rparr>,
          response_text = [],
          functionCalls = [\<lparr>name = Some ''foo'', args = JObj []\<rparr>]\<rparr>
   \<and> JSON_parse (nullish_or (Some []) ''{}'') = None"
  by (simp add: convertFromOpenAIFormat_def first_choice_def reply_tool_call_def arguments_text_def
        string_or_def convertUsage_def number_or_def nullish_or_def Let_def
        JSON_parse_empty_object JSON_parse_empty_text)

text \<open>
  Claim C3, as amended. With a parser that accepts \<^verbatim>\<open>{}\<close>, \<open>convertFromOpenAIFormat\<close> fails if
  and only if the response has no first choice (\<^verbatim>\<open>choices\<close> absent or empty), or the first tool
  call's arguments string is present, non-empty and refused by the parser. Every failure is a
  protocol error; in every other case the result is one response with one candidate; and
  \<open>generateContent\<close> hands the failure to its caller unchanged.
\<close>

theorem protocol_failures:
  assumes "parse ''{}'' = Some (JObj [])"
  shows "((\<exists>e. convertFromOpenAIFormat parse r = Inl e) \<longleftrightarrow>
            (choices r = None \<or> choices r = Some []
             \<or> (\<exists>choice others m tc rest f s.
                   choices r = Some (choice # others) \<and> message choice = Some m
                   \<and> tool_calls m = Some (tc # rest) \<and> tc_function tc = Some f
                   \<and> arguments f = Some s \<and> s \<noteq> [] \<and> parse s = None)))
       \<and> (\<forall>e. convertFromOpenAIFormat parse r = Inl e \<longrightarrow> ProtocolError e)
       \<and> ((\<exists>e. convertFromOpenAIFormat parse r = Inl e)
            \<or> (\<exists>resp c. convertFromOpenAIFormat parse r = Inr resp \<and> candidates resp = [c]))
       \<and> (\<forall>e hr. fetch (endpoint this @ ''/chat/completions'') (request_headers this)
                     (convertToOpenAIFormat this req) = Inr hr
                 \<and> ok hr \<and> body_json hr = Some r \<and> convertFromOpenAIFormat parse r = Inl e
               \<longrightarrow> generateContent parse fetch this req = Inl e)"
proof (cases r rule: choice_cases)
  case 1
  then have "convertFromOpenAIFormat parse r = Inl NoChoices"
    by (rule convert_no_choice)
  with 1 show ?thesis
    by (auto simp: generateContent_body)
next
  case (2 choice others)
  from convert_plain [OF 2, of parse] 2 show ?thesis
    by (auto simp: no_tool_call_def)
next
  case (3 choice others m tc rest)
  note eq = convert_tool_call [OF 3, of parse]
  show ?thesis
  proof (cases "parse (arguments_text tc)")
    case None
    with eq have fails: "convertFromOpenAIFormat parse r = Inl ArgumentsSyntaxError" by simp
    from None assms obtain f s where "tc_function tc = Some f" "arguments f = Some s"
        "s \<noteq> []" "parse s = None"
      by (auto simp: arguments_text_eq split: option.splits if_splits)
    with 3 fails show ?thesis
      by (auto simp: generateContent_body)
  next
    case (Some a)
    with eq obtain resp c where
      returns: "convertFromOpenAIFormat parse r = Inr resp" "candidates resp = [c]"
      by simp
    have "\<not> (\<exists>f s. tc_function tc = Some f \<and> arguments f = Some s \<and> s \<noteq> [] \<and> parse s = None)"
      using Some by (auto simp: arguments_text_eq)
    with 3 returns show ?thesis by auto
  qed
qed

theorem protocol_failures_witness:
  "JSON_parse ''{}'' = Some (JObj [])
   \<and> convertFromOpenAIFormat JSON_parse (reply_tool_call None (Some ''{x'')) = Inl ArgumentsSyntaxError
   \<and> convertFromOpenAIFormat JSON_parse \<lparr>choices = Some [], usage = None\<rparr> = Inl NoChoices
   \<and> generateContent JSON_parse (fetch_ok (reply_tool_call None (Some ''{x''))) this0 request_hi
       = Inl ArgumentsSyntaxError"
proof -
  have bad: "convertFromOpenAIFormat JSON_parse (reply_tool_call None (Some ''{x'')) = Inl ArgumentsSyntaxError"
    by (simp add: convertFromOpenAIFormat_def first_choice_def reply_tool_call_def
          arguments_text_def string_or_def JSON_parse_unfinished)
  have none: "convertFromOpenAIFormat JSON_parse \<lparr>choices = Some [], usage = None\<rparr> = Inl NoChoices"
    by (simp add: convertFromOpenAIFormat_def first_choice_def)
  have post: "fetch_ok (reply_tool_call None (Some ''{x'')) (endpoint this0 @ ''/chat/completions'')
                (request_headers this0) (convertToOpenAIFormat this0 request_hi)
              = Inr \<lparr>ok = True, status = 200, body_text = [],
                     body_json = Some (reply_tool_call None (Some ''{x''))\<rparr>"
    by (simp add: fetch_ok_def)
  from protocol_failures [of JSON_parse "reply_tool_call None (Some ''{x'')"
      "fetch_ok (reply_tool_call None (Some ''{x''))" this0 request_hi, OF JSON_parse_empty_object]
    bad post
  have "generateContent JSON_parse (fetch_ok (reply_tool_call None (Some ''{x''))) this0 request_hi
          = Inl ArgumentsSyntaxError"
    by simp
  with bad none JSON_parse_empty_object show ?thesis by simp
qed

text \<open>The claim as it stands fails on an arguments string that is present and is the empty
  string, which is not JSON: the translator returns a response.\<close>

theorem empty_arguments_accepted_counterexample:
  "arguments \<lparr>fn_name = Some ''foo'', arguments = Some []\<rparr> = Some []
   \<and> JSON_parse [] = None
   \<and> convertFromOpenAIFormat JSON_parse (reply_tool_call (Some ''ok'') (Some [])) =
     Inr \<lparr>candidates =
            [\<lparr>cand_content =
                \<lparr>parts = [TextPart ''ok'', FunctionCallPart \<lparr>name = Some ''foo'', args = JObj []\<rparr>],
                 content_role = ''model''\<rparr>,
              finishReason = ''STOP'', index = 0\<rparr>],
          usageMetadata = \<lparr>promptTokenCount = 0, candidatesTokenCount = 0, totalTokenCount = 0\<rparr>,
          response_text = ''ok'',
          functionCalls = [\<lparr>name = Some ''foo'', args = JObj []\<rparr>]\<rparr>"
  by (simp add: convertFromOpenAIFormat_def first_choice_def reply_tool_call_def arguments_text_def
        string_or_def convertUsage_def number_or_def Let_def
        JSON_parse_empty_object JSON_parse_empty_text)

text \<open>
  Claim C10. Every response that \<open>convertFromOpenAIFormat\<close> returns, on the plain-text branch
  and on the tool-call branch, has exactly one candidate, with index 0 and the content role
  \<^verbatim>\<open>model\<close>; each count of its usage metadata is the wire's count, and 0 when the wire's usage
  or that count is absent.
\<close>

theorem single_candidate:
  assumes "convertFromOpenAIFormat parse r = Inr resp"
  shows "\<exists>c. candidates resp = [c] \<and> index c = 0 \<and> content_role (cand_content c) = ''model''
           \<and> promptTokenCount (usageMetadata resp) =
               (case usage r of None \<Rightarrow> 0 | Some u \<Rightarrow> (case prompt_tokens u of None \<Rightarrow> 0 | Some n \<Rightarrow> n))
           \<and> candidatesTokenCount (usageMetadata resp) =
               (case usage r of None \<Rightarrow> 0 | Some u \<Rightarrow> (case completion_tokens u of None \<Rightarrow> 0 | Some n \<Rightarrow> n))
           \<and> totalTokenCount (usageMetadata resp) =
               (case usage r of None \<Rightarrow> 0 | Some u \<Rightarrow> (case total_tokens u of None \<Rightarrow> 0 | Some n \<Rightarrow> n))"
proof (cases r rule: choice_cases)
  case 1
  with assms show ?thesis by (simp add: convert_no_choice)
next
  case (2 choice others)
  from convert_plain [OF 2, of parse] assms show ?thesis
    by (auto simp: convertUsage_def number_or_zero split: option.splits)
next
  case (3 choice others m tc rest)
  from convert_tool_call [OF 3, of parse] assms show ?thesis
    by (auto simp: convertUsage_def number_or_zero split: option.splits)
qed

theorem single_candidate_witness:
  "convertFromOpenAIFormat JSON_parse reply_text =
     Inr \<lparr>candidates =
            [\<lparr>cand_content = \<lparr>parts = [TextPart ''hello''], content_role = ''model''\<rparr>,
              finishReason = ''LENGTH'', index = 0\<rparr>],
          usageMetadata = \<lparr>promptTokenCount = 7, candidatesTokenCount = 0, totalTokenCount = 9\<rparr>,
          response_text = ''hello'',
          functionCalls = []\<rparr>
   \<and> (\<exists>resp c. convertFromOpenAIFormat JSON_parse reply_text = Inr resp
         \<and> candidates resp = [c] \<and> index c = 0 \<and> content_role (cand_content c) = ''model''
         \<and> promptTokenCount (usageMetadata resp) = 7
         \<and> candidatesTokenCount (usageMetadata resp) = 0)"
proof -
  have returns: "convertFromOpenAIFormat JSON_parse reply_text =
     Inr \<lparr>candidates =
            [\<lparr>cand_content = \<lparr>parts = [TextPart ''hello''], content_role = ''model''\<rparr>,
              finishReason = ''LENGTH'', index = 0\<rparr>],
          usageMetadata = \<lparr>promptTokenCount = 7, candidatesTokenCount = 0, totalTokenCount = 9\<rparr>,
          response_text = ''hello'',
          functionCalls = []\<rparr>"
    by code_simp
  from single_candidate [OF returns] returns show ?thesis by simp
qed

section \<open>The public operations: claims C9 and C6\<close>

text \<open>
  Claim C9. Whenever \<open>generateContent\<close> returns a response, \<open>generateContentStream\<close> returns a
  generator that yields exactly one item, that response, and completes. When
  \<open>generateContent\<close> fails, \<open>generateContentStream\<close> fails with the same error.
\<close>

theorem stream_of_one:
  "(\<forall>resp. generateContent parse fetch this req = Inr resp \<longrightarrow>
       (\<exists>items. generateContentStream parse fetch this req = Inr items
                \<and> length items = 1 \<and> items ! 0 = resp))
   \<and> (\<forall>e. generateContent parse fetch this req = Inl e \<longrightarrow>
         generateContentStream parse fetch this req = Inl e)"
  by (simp add: generateContentStream_def single_response_generator_def)

theorem stream_of_one_witness:
  "generateContent JSON_parse (fetch_ok reply_text) this0 request_hi =
     Inr \<lparr>candidates =
            [\<lparr>cand_content = \<lparr>parts = [TextPart ''hello''], content_role = ''model''\<rparr>,
              finishReason = ''LENGTH'', index = 0\<rparr>],
          usageMetadata = \<lparr>promptTokenCount = 7, candidatesTokenCount = 0, totalTokenCount = 9\<rparr>,
          response_text = ''hello'',
          functionCalls = []\<rparr>
   \<and> generateContentStream JSON_parse (fetch_ok reply_text) this0 request_hi =
     Inr [\<lparr>candidates =
            [\<lparr>cand_content = \<lparr>parts = [TextPart ''hello''], content_role = ''model''\<rparr>,
              finishReason = ''LENGTH'', index = 0\<rparr>],
          usageMetadata = \<lparr>promptTokenCount = 7, candidatesTokenCount = 0, totalTokenCount = 9\<rparr>,
          response_text = ''hello'',
          functionCalls = []\<rparr>]
   \<and> generateContent JSON_parse (fetch_status 500 ''down'') this0 request_hi
       = Inl (HttpError 500 ''down'')
   \<and> generateContentStream JSON_parse (fetch_status 500 ''down'') this0 request_hi
       = Inl (HttpError 500 ''down'')"
proof -
  have returns: "generateContent JSON_parse (fetch_ok reply_text) this0 request_hi =
     Inr \<lparr>candidates =
            [\<lparr>cand_content = \<lparr>parts = [TextPart ''hello''], content_role = ''model''\<rparr>,
              finishReason = ''LENGTH'', index = 0\<rparr>],
          usageMetadata = \<lparr>promptTokenCount = 7, candidatesTokenCount = 0, totalTokenCount = 9\<rparr>,
          response_text = ''hello'',
          functionCalls = []\<rparr>"
    by code_simp
  have fails: "generateContent JSON_parse (fetch_status 500 ''down'') this0 request_hi
                 = Inl (HttpError 500 ''down'')"
    by (simp add: generateContent_def fetch_status_def Let_def)
  from stream_of_one [of JSON_parse "fetch_ok reply_text" this0 request_hi] returns
       stream_of_one [of JSON_parse "fetch_status 500 ''down''" this0 request_hi] fails
  show ?thesis by (auto simp: length_Suc_conv)
qed

text \<open>
  Claim C6, as amended. \<open>countTokens\<close> always returns, and \<^verbatim>\<open>totalTokens\<close> is the length of the
  JSON serialization of the contents (of the empty string when the contents are falsy) divided
  by 4 and rounded up. The serialization of a string has its two quotes, so the contents
  \<^verbatim>\<open>abcd\<close> serialize to 6 characters and give 2, and \<^verbatim>\<open>abcdefgh\<close> to 10 characters and give 3.
\<close>

theorem token_estimate:
  "countTokens N c =
     Inr \<lparr>totalTokens =
            \<lceil>(of_nat (length (serialize N (if truthy_jsval c then c else JStr []))) :: rat) / 4\<rceil>\<rparr>
   \<and> serialize N (JStr ''abcd'') = dquote # ''abcd'' @ [dquote]
   \<and> countTokens N (JStr ''abcd'') = Inr \<lparr>totalTokens = 2\<rparr>
   \<and> countTokens N (JStr ''abcdefgh'') = Inr \<lparr>totalTokens = 3\<rparr>"
proof -
  have general: "countTokens N c =
     Inr \<lparr>totalTokens =
            \<lceil>(of_nat (length (serialize N (if truthy_jsval c then c else JStr []))) :: rat) / 4\<rceil>\<rparr>"
    by (auto simp: countTokens_def JSON_stringify_def Math_ceil_def)
  have four: "countTokens N (JStr ''abcd'') = Inr \<lparr>totalTokens = 2\<rparr>"
    by (simp add: countTokens_def JSON_stringify_def quote_abcd Math_ceil_quarter [of 6, simplified])
  have eight: "countTokens N (JStr ''abcdefgh'') = Inr \<lparr>totalTokens = 3\<rparr>"
    by (simp add: countTokens_def JSON_stringify_def quote_abcdefgh Math_ceil_quarter [of 10, simplified])
  from general four eight show ?thesis by (simp add: quote_abcd)
qed

text \<open>The claim as it stands fails on its own examples: the contents \<^verbatim>\<open>abcd\<close> give 2, not 1,
  and \<^verbatim>\<open>abcdefgh\<close> give 3, not 2.\<close>

theorem token_estimate_counterexample:
  "countTokens unused_printer (JStr ''abcd'') = Inr \<lparr>totalTokens = 2\<rparr>
   \<and> countTokens unused_printer (JStr ''abcd'') \<noteq> Inr \<lparr>totalTokens = 1\<rparr>
   \<and> countTokens unused_printer (JStr ''abcdefgh'') = Inr \<lparr>totalTokens = 3\<rparr>
   \<and> countTokens unused_printer (JStr ''abcdefgh'') \<noteq> Inr \<lparr>totalTokens = 2\<rparr>"
  by (simp add: countTokens_def JSON_stringify_def quote_abcd quote_abcdefgh
        Math_ceil_quarter [of 6, simplified] Math_ceil_quarter [of 10, simplified])

end
